theory Spec2Isabelle
  imports Complex_Main "HOL-Library.Log_Nat"
begin

section \<open>Data model\<close>

text \<open>
  The repository has two modules: \<^verbatim>\<open>data_generation.py\<close> (a synthetic sampler of
  impression records) and \<^verbatim>\<open>analysis.py\<close> (the class \<^verbatim>\<open>AbTestAnalyzer\<close>).
  A Python float is a finite number, one of the two infinities, or not-a-number. The
  finite values are real numbers here; where the analyzer itself does float arithmetic
  (the rates and the lift of a binary metric) the rounding of IEEE doubles is modelled,
  see below.
\<close>

datatype pyfloat = Num real | NaN | PosInf | NegInf

text \<open>\<^verbatim>\<open>p_value < self.alpha\<close>: a comparison with not-a-number is false.\<close>

fun pf_less :: "pyfloat \<Rightarrow> real \<Rightarrow> bool" where
  "pf_less (Num x) a = (x < a)"
| "pf_less NaN a = False"
| "pf_less PosInf a = False"
| "pf_less NegInf a = True"

subsection \<open>IEEE doubles\<close>

text \<open>
  A finite double is a real number \<open>m * 2 powi q\<close> with an integer \<open>m\<close> of at most 53
  bits, and every arithmetic operation returns the exact result rounded to the nearest
  double, ties to the even significand. \<open>rne\<close> rounds a real to the nearest integer,
  ties to even; \<open>f64_exponent x\<close> is the binary exponent \<open>\<lfloor>log 2 x\<rfloor>\<close> of a positive
  \<open>x\<close>, computed on integers; \<open>f64_ulp x\<close> is the distance between the doubles around
  \<open>x\<close>; \<open>fl64\<close> is the rounding. Overflow and gradual underflow are left out: the
  magnitudes that arise from 64-bit counts, their quotients and the lift stay far inside
  the range of the normal doubles, where neither occurs.
\<close>

definition rne :: "real \<Rightarrow> int" where
  "rne y = (let f = \<lfloor>y\<rfloor>; d = y - of_int f in
            if d < 1 / 2 then f else if 1 / 2 < d then f + 1
            else if even f then f else f + 1)"

definition f64_exponent :: "real \<Rightarrow> int" where
  "f64_exponent x = (if 1 \<le> x then bitlen \<lfloor>x\<rfloor> - 1 else - bitlen (\<lceil>1 / x\<rceil> - 1))"

definition f64_ulp :: "real \<Rightarrow> real" where
  "f64_ulp x = 2 powi (f64_exponent x - 52)"

definition fl64 :: "real \<Rightarrow> real" where
  "fl64 x = (if x = 0 then 0
             else if 0 < x then of_int (rne (x / f64_ulp x)) * f64_ulp x
             else - (of_int (rne (- x / f64_ulp (- x))) * f64_ulp (- x)))"

text \<open>
  The conversion of an integer to a double (exact up to \<open>2 ^ 53\<close>), and the two
  operations the analyzer uses. A division is only ever evaluated on a divisor that is
  not zero.
\<close>

definition to_f64 :: "int \<Rightarrow> real" where
  "to_f64 n = fl64 (of_int n)"

definition f64_div :: "real \<Rightarrow> real \<Rightarrow> real" where
  "f64_div a b = fl64 (a / b)"

definition f64_sub :: "real \<Rightarrow> real \<Rightarrow> real" where
  "f64_sub a b = fl64 (a - b)"

text \<open>
  The exceptions. The analyzer raises \<^verbatim>\<open>ValueError\<close> at four places, told apart by
  their messages; each place is a constructor, named as the specification names it:
  \<^item> \<open>SchemaError missing\<close>: \<^verbatim>\<open>ValueError(f"Missing required columns: {missing}")\<close>;
  \<^item> \<open>MissingVariantError\<close>: \<^verbatim>\<open>ValueError("Both variants A and B must be present in data.")\<close>;
  \<^item> \<open>NoClicksError\<close>: \<^verbatim>\<open>ValueError("No clicks in dataset to compute conversion per click.")\<close>;
  \<^item> \<open>InvalidArgumentError\<close>: \<^verbatim>\<open>ValueError("denominator must be 'impressions' or 'clicks'")\<close>.
  \<open>KeyError c\<close> is what pandas raises on reading a column \<open>c\<close> that the frame does not
  have, and \<open>NumpyValueError\<close> is the \<^verbatim>\<open>ValueError\<close> that \<^verbatim>\<open>numpy.random\<close> raises on
  arguments out of its domain.
\<close>

datatype error =
    SchemaError "string set"
  | MissingVariantError
  | NoClicksError
  | InvalidArgumentError
  | KeyError string
  | NumpyValueError

text \<open>
  One impression record: a cell for each of the six columns of the data model, with the
  column's type (\<^verbatim>\<open>variant\<close> a string, \<^verbatim>\<open>revenue\<close> a float, the others integers).
\<close>

record row =
  impression_id :: int
  user_id :: int
  variant :: string
  clicked :: int
  converted :: int
  revenue :: real

text \<open>
  A \<^verbatim>\<open>pandas.DataFrame\<close>: its column index and its rows. A cell is read only through a
  column that \<open>columns\<close> lists; reading any other column is a \<open>KeyError\<close>.
\<close>

record dataframe =
  columns :: "string list"
  rows :: "row list"

text \<open>\<^verbatim>\<open>DataFrame.empty\<close>: true when any axis has length zero.\<close>

definition empty_df :: "dataframe \<Rightarrow> bool" where
  "empty_df d = (rows d = [] \<or> columns d = [])"

record MetricResult =
  metric_name :: string
  variant_a :: real
  variant_b :: real
  lift :: pyfloat
  p_value :: pyfloat
  significant :: bool

record analyzer =
  df :: dataframe
  alpha :: real

text \<open>
  The two statistical tests come from statsmodels and scipy, not from this repository:
  they are parameters of the model. Each takes the two samples and returns the pair
  (statistic, p-value); neither raises on the non-empty samples the analyzer passes.
\<close>

record stats_lib =
  proportions_ztest :: "int list \<Rightarrow> nat list \<Rightarrow> pyfloat \<times> pyfloat"
  ttest_ind :: "real list \<Rightarrow> real list \<Rightarrow> pyfloat \<times> pyfloat"

section \<open>The analyzer (\<^verbatim>\<open>analysis.py\<close>)\<close>

definition required_cols :: "string set" where
  "required_cols = {''variant'', ''clicked'', ''converted'', ''revenue''}"

text \<open>\<^verbatim>\<open>AbTestAnalyzer.__init__(df, alpha)\<close>.\<close>

definition AbTestAnalyzer :: "dataframe \<Rightarrow> real \<Rightarrow> error + analyzer" where
  "AbTestAnalyzer d a =
     (let missing = required_cols - set (columns d) in
      if missing \<noteq> {} then Inl (SchemaError missing)
      else Inr \<lparr>df = d, alpha = a\<rparr>)"

text \<open>
  \<^verbatim>\<open>df.groupby("variant")\<close>: the index of the grouped frame is the set of labels that
  occur, and the group of a label holds the rows that carry it, in row order.
\<close>

definition group_index :: "dataframe \<Rightarrow> string set" where
  "group_index d = set (map variant (rows d))"

definition group_rows :: "dataframe \<Rightarrow> string \<Rightarrow> row list" where
  "group_rows d l = filter (\<lambda>r. variant r = l) (rows d)"

text \<open>The integer columns by name (the success column of a binary metric is one).\<close>

definition int_column :: "string \<Rightarrow> (row \<Rightarrow> int) option" where
  "int_column c =
     (if c = ''impression_id'' then Some impression_id
      else if c = ''user_id'' then Some user_id
      else if c = ''clicked'' then Some clicked
      else if c = ''converted'' then Some converted
      else None)"

text \<open>
  \<^verbatim>\<open>AbTestAnalyzer._binary_ztest(success_col, metric_name)\<close>. The aggregation
  \<^verbatim>\<open>agg(["sum", "count"])\<close> gives each group's sum of the success column and its
  number of rows. Its callers pass \<^verbatim>\<open>"clicked"\<close> and \<^verbatim>\<open>"converted"\<close> only; any name
  that is not an integer column is answered with \<open>KeyError\<close>. A group in the index has
  at least one row, so the two divisions by \<open>nobs\<close> are by positive numbers. The
  quotient of two integer arrays is numpy's true division: both operands are converted
  to doubles and divided; the lift is then one subtraction and one division of doubles.
\<close>

definition binary_ztest :: "stats_lib \<Rightarrow> analyzer \<Rightarrow> string \<Rightarrow> string \<Rightarrow> error + MetricResult" where
  "binary_ztest L self success_col name =
     (if ''variant'' \<notin> set (columns (df self)) then Inl (KeyError ''variant'')
      else if success_col \<notin> set (columns (df self)) then Inl (KeyError success_col)
      else case int_column success_col of
        None \<Rightarrow> Inl (KeyError success_col)
      | Some col \<Rightarrow>
          if \<not> {''A'', ''B''} \<subseteq> group_index (df self) then Inl MissingVariantError
          else
            let successes = [sum_list (map col (group_rows (df self) ''A'')),
                             sum_list (map col (group_rows (df self) ''B''))];
                nobs = [length (group_rows (df self) ''A''),
                        length (group_rows (df self) ''B'')];
                pv = snd (proportions_ztest L successes nobs);
                rate_a = f64_div (to_f64 (successes ! 0)) (to_f64 (int (nobs ! 0)));
                rate_b = f64_div (to_f64 (successes ! 1)) (to_f64 (int (nobs ! 1)));
                lift = (if rate_a > 0 then Num (f64_div (f64_sub rate_b rate_a) rate_a) else NaN);
                significant = pf_less pv (alpha self)
            in Inr \<lparr>metric_name = name, variant_a = rate_a, variant_b = rate_b,
                     lift = lift, p_value = pv, significant = significant\<rparr>)"

text \<open>\<^verbatim>\<open>AbTestAnalyzer.ctr()\<close>, the click-through rate per impression.\<close>

definition ctr :: "stats_lib \<Rightarrow> analyzer \<Rightarrow> error + MetricResult" where
  "ctr L self = binary_ztest L self ''clicked'' ''click_through_rate''"

text \<open>
  \<^verbatim>\<open>AbTestAnalyzer.conversion_rate(denominator)\<close>. For \<^verbatim>\<open>"clicks"\<close> a new analyzer is
  constructed on the clicked rows, which runs the constructor's column check again.
\<close>

definition conversion_rate :: "stats_lib \<Rightarrow> analyzer \<Rightarrow> string \<Rightarrow> error + MetricResult" where
  "conversion_rate L self denominator =
     (if denominator = ''impressions''
      then binary_ztest L self ''converted'' ''conversion_rate_per_impression''
      else if denominator = ''clicks'' then
        (if ''clicked'' \<notin> set (columns (df self)) then Inl (KeyError ''clicked'')
         else
           let df_clicked = (df self)\<lparr>rows := filter (\<lambda>r. clicked r = 1) (rows (df self))\<rparr> in
           if empty_df df_clicked then Inl NoClicksError
           else case AbTestAnalyzer df_clicked (alpha self) of
             Inl e \<Rightarrow> Inl e
           | Inr inner \<Rightarrow> binary_ztest L inner ''converted'' ''conversion_rate_per_click'')
      else Inl InvalidArgumentError)"

text \<open>
  \<^verbatim>\<open>AbTestAnalyzer.revenue_per_impression()\<close>. The group mean is the group's sum over
  its number of rows; Welch's test receives the two revenue samples. The mean of a
  float column is pandas' own summation, whose order of additions is not fixed by this
  repository: the means and the lift of this metric are computed on the reals.
\<close>

definition mean :: "real list \<Rightarrow> real" where
  "mean xs = sum_list xs / real (length xs)"

definition revenue_per_impression :: "stats_lib \<Rightarrow> analyzer \<Rightarrow> error + MetricResult" where
  "revenue_per_impression L self =
     (if ''variant'' \<notin> set (columns (df self)) then Inl (KeyError ''variant'')
      else if ''revenue'' \<notin> set (columns (df self)) then Inl (KeyError ''revenue'')
      else if \<not> {''A'', ''B''} \<subseteq> group_index (df self) then Inl MissingVariantError
      else
        let rev_a = map revenue (group_rows (df self) ''A'');
            rev_b = map revenue (group_rows (df self) ''B'');
            pv = snd (ttest_ind L rev_a rev_b);
            mean_a = mean rev_a;
            mean_b = mean rev_b;
            lift = (if mean_a \<noteq> 0 then Num ((mean_b - mean_a) / mean_a) else NaN);
            significant = pf_less pv (alpha self)
        in Inr \<lparr>metric_name = ''revenue_per_impression'', variant_a = mean_a,
                 variant_b = mean_b, lift = lift, p_value = pv,
                 significant = significant\<rparr>)"


section \<open>The two library tests\<close>

text \<open>
  Modelled from the documentation of statsmodels and scipy: \<^verbatim>\<open>proportions_ztest\<close> and
  \<^verbatim>\<open>ttest_ind\<close> are not code of this repository. Both compute a statistic as a
  difference over its standard error and hand back the two-sided tail probability of
  that statistic. The tail functions (the survival function of the standard normal
  distribution, and that of Student's t distribution with a given number of degrees of
  freedom) are parameters. Where the standard error is zero the quotient is the float
  quotient by zero: not-a-number for \<open>0 / 0\<close>, an infinity otherwise, whose tail
  probability is 0. The arithmetic inside the libraries is taken on the reals.
\<close>

text \<open>
  The common last step of both tests: the statistic \<open>value / sqrt var\<close> and its
  two-sided tail probability. The square root of a negative variance is not-a-number.
\<close>

definition two_sided :: "(real \<Rightarrow> real) \<Rightarrow> real \<Rightarrow> real \<Rightarrow> pyfloat \<times> pyfloat" where
  "two_sided sf v var =
     (if var < 0 then (NaN, NaN)
      else if var = 0 then
        (if v = 0 then (NaN, NaN)
         else if 0 < v then (PosInf, Num 0) else (NegInf, Num 0))
      else (Num (v / sqrt var), Num (2 * sf \<bar>v / sqrt var\<bar>)))"

text \<open>
  \<^verbatim>\<open>proportions_ztest(count, nobs)\<close> on two samples: the difference of the two
  proportions over the square root of the pooled variance
  \<open>p (1 - p) (1 / n1 + 1 / n2)\<close>. The analyzer passes two-element arrays only, with
  positive numbers of observations.
\<close>

fun proportions_ztest_doc :: "(real \<Rightarrow> real) \<Rightarrow> int list \<Rightarrow> nat list \<Rightarrow> pyfloat \<times> pyfloat" where
  "proportions_ztest_doc sf [c1, c2] [n1, n2] =
     (if n1 = 0 \<or> n2 = 0 then (NaN, NaN)
      else
        let diff = real_of_int c1 / real n1 - real_of_int c2 / real n2;
            p_pooled = real_of_int (c1 + c2) / real (n1 + n2);
            var = p_pooled * (1 - p_pooled) * (1 / real n1 + 1 / real n2)
        in two_sided sf diff var)"
| "proportions_ztest_doc sf cs ns = (NaN, NaN)"

text \<open>The sample variance with \<^verbatim>\<open>ddof=1\<close>.\<close>

definition sample_var :: "real list \<Rightarrow> real" where
  "sample_var xs = sum_list (map (\<lambda>x. (x - mean xs) ^ 2) xs) / (real (length xs) - 1)"

text \<open>
  \<^verbatim>\<open>ttest_ind(a, b, equal_var=False)\<close>, Welch's test: the difference of the means over
  \<open>sqrt (v1 / n1 + v2 / n2)\<close>, with the degrees of freedom of Welch and Satterthwaite.
  A sample of fewer than two values has no variance, and the result is not-a-number.
\<close>

definition ttest_ind_doc :: "(real \<Rightarrow> real \<Rightarrow> real) \<Rightarrow> real list \<Rightarrow> real list \<Rightarrow> pyfloat \<times> pyfloat" where
  "ttest_ind_doc sf a b =
     (if length a < 2 \<or> length b < 2 then (NaN, NaN)
      else
        let n1 = real (length a);
            n2 = real (length b);
            vn1 = sample_var a / n1;
            vn2 = sample_var b / n2;
            dof = (vn1 + vn2) ^ 2 / (vn1 ^ 2 / (n1 - 1) + vn2 ^ 2 / (n2 - 1))
        in two_sided (sf dof) (mean a - mean b) (vn1 + vn2))"

definition doc_stats :: "(real \<Rightarrow> real) \<Rightarrow> (real \<Rightarrow> real \<Rightarrow> real) \<Rightarrow> stats_lib" where
  "doc_stats nsf tsf =
     \<lparr>proportions_ztest = proportions_ztest_doc nsf, ttest_ind = ttest_ind_doc tsf\<rparr>"

text \<open>
  What the documentation promises of a tail function: on a statistic that is not
  negative, a probability of at most one half.
\<close>

definition tail_ok :: "(real \<Rightarrow> real) \<Rightarrow> bool" where
  "tail_ok sf = (\<forall>x. 0 \<le> x \<longrightarrow> 0 \<le> sf x \<and> sf x \<le> 1 / 2)"

text \<open>A p-value that is a number between 0 and 1, or not-a-number.\<close>

fun unit_or_nan :: "pyfloat \<Rightarrow> bool" where
  "unit_or_nan (Num p) = (0 \<le> p \<and> p \<le> 1)"
| "unit_or_nan NaN = True"
| "unit_or_nan PosInf = False"
| "unit_or_nan NegInf = False"

text \<open>
  A function with the range of a tail, to run the two tests on concrete samples; the
  not-a-number results do not consult it.
\<close>

definition sample_tail :: "real \<Rightarrow> real" where
  "sample_tail x = 1 / (2 + 2 * \<bar>x\<bar>)"

definition sample_stats :: stats_lib where
  "sample_stats = doc_stats sample_tail (\<lambda>dof. sample_tail)"

section \<open>The generator (\<^verbatim>\<open>data_generation.py\<close>)\<close>

text \<open>The dataclass \<^verbatim>\<open>AdExperimentConfig\<close> and its default values.\<close>

record AdExperimentConfig =
  n_impressions :: int
  ctr_a :: real
  ctr_b :: real
  conv_a :: real
  conv_b :: real
  rev_mean_a :: real
  rev_mean_b :: real
  rev_std :: real
  seed :: "int option"

definition default_config :: AdExperimentConfig where
  "default_config =
     \<lparr>n_impressions = 10000, ctr_a = 5 / 100, ctr_b = 6 / 100, conv_a = 1 / 100,
      conv_b = 12 / 1000, rev_mean_a = 10, rev_mean_b = 11, rev_std = 2, seed = Some 19\<rparr>"

text \<open>
  \<^verbatim>\<open>numpy.random\<close> keeps one global generator state, which every draw reads and
  advances. The model passes the state explicitly; the generator itself is not code of
  this repository and is a parameter: how a seed initialises the state, and how one
  scalar is drawn by each of the four distributions the sampler uses. The draw of
  \<^verbatim>\<open>choice\<close> over a two-element array answers whether the first element is taken.
\<close>

record 'g np_random =
  rng_seed :: "int \<Rightarrow> 'g"
  rng_choice :: "'g \<Rightarrow> bool \<times> 'g"
  rng_rand :: "'g \<Rightarrow> real \<times> 'g"
  rng_normal :: "real \<Rightarrow> real \<Rightarrow> 'g \<Rightarrow> real \<times> 'g"
  rng_randint :: "int \<Rightarrow> int \<Rightarrow> 'g \<Rightarrow> int \<times> 'g"

text \<open>
  An array draw fills its elements one after the other from the state; \<open>sample_each\<close>
  draws one element per parameter (\<^verbatim>\<open>normal(loc=means, ...)\<close> has one mean per element),
  \<open>sample\<close> draws \<open>n\<close> elements with the same parameters (\<^verbatim>\<open>size=n\<close>).
\<close>

fun sample_each :: "('p \<Rightarrow> 'g \<Rightarrow> 'a \<times> 'g) \<Rightarrow> 'p list \<Rightarrow> 'g \<Rightarrow> 'a list \<times> 'g" where
  "sample_each f [] g = ([], g)"
| "sample_each f (p # ps) g =
     (case f p g of (x, g1) \<Rightarrow> (case sample_each f ps g1 of (xs, g2) \<Rightarrow> (x # xs, g2)))"

definition sample :: "nat \<Rightarrow> ('g \<Rightarrow> 'a \<times> 'g) \<Rightarrow> 'g \<Rightarrow> 'a list \<times> 'g" where
  "sample n f g = sample_each (\<lambda>u. f) (replicate n ()) g"

text \<open>
  \<^verbatim>\<open>np.random.seed(s)\<close> accepts a seed between 0 and \<open>2\<^sup>3\<^sup>2 - 1\<close> and raises
  \<^verbatim>\<open>ValueError\<close> on any other integer.
\<close>

definition np_seed :: "'g np_random \<Rightarrow> int \<Rightarrow> error + 'g" where
  "np_seed R s = (if 0 \<le> s \<and> s < 2 ^ 32 then Inr (rng_seed R s) else Inl NumpyValueError)"

text \<open>
  \<^verbatim>\<open>pd.DataFrame({...})\<close> on the six arrays of the sampler, in the order of the
  dictionary: row \<open>i\<close> takes the \<open>i\<close>-th element of each array.
\<close>

definition DataFrame :: "int list \<Rightarrow> int list \<Rightarrow> string list \<Rightarrow> int list \<Rightarrow> int list \<Rightarrow> real list \<Rightarrow> dataframe" where
  "DataFrame ids uids variants clicked_arr converted_arr revenue_arr =
     \<lparr>columns = [''impression_id'', ''user_id'', ''variant'', ''clicked'', ''converted'', ''revenue''],
      rows = map (\<lambda>(i, u, v, c, k, r).
                   \<lparr>impression_id = i, user_id = u, variant = v, clicked = c, converted = k, revenue = r\<rparr>)
               (zip ids (zip uids (zip variants (zip clicked_arr (zip converted_arr revenue_arr)))))\<rparr>"

text \<open>
  \<^verbatim>\<open>generate_synthetic_data(config)\<close>, from the global state \<open>g0\<close> it is called in; it
  returns the frame and the state it leaves. What numpy does at the edges of its domain
  is written out:
  \<^item> a negative \<^verbatim>\<open>size\<close> raises \<^verbatim>\<open>ValueError\<close> (at \<^verbatim>\<open>choice\<close>, the first draw);
  \<^item> \<^verbatim>\<open>normal\<close> raises \<^verbatim>\<open>ValueError\<close> on a negative \<^verbatim>\<open>scale\<close>;
  \<^item> \<^verbatim>\<open>randint(low, high, size)\<close> draws from \<open>low \<le> x < high\<close>; on a non-empty
    \<^verbatim>\<open>size\<close> it raises \<^verbatim>\<open>ValueError\<close> when \<open>high \<le> low\<close>.
  \<^verbatim>\<open>n // 2\<close> is floor division, as \<open>div\<close> on \<open>int\<close>; \<^verbatim>\<open>.clip(min=0)\<close> is \<open>max x 0\<close>;
  \<^verbatim>\<open>np.arange(1, n + 1)\<close> is \<open>[1..n]\<close>.
\<close>

definition generate_synthetic_data ::
    "'g np_random \<Rightarrow> AdExperimentConfig \<Rightarrow> 'g \<Rightarrow> error + dataframe \<times> 'g" where
  "generate_synthetic_data R config g0 =
     (case (case seed config of None \<Rightarrow> Inr g0 | Some s \<Rightarrow> np_seed R s) of
        Inl e \<Rightarrow> Inl e
      | Inr g1 \<Rightarrow>
          let n = n_impressions config in
          if n < 0 then Inl NumpyValueError
          else
            case sample (nat n) (rng_choice R) g1 of (choices, g2) \<Rightarrow>
            let variants = map (\<lambda>b. if b then ''A'' else ''B'') choices;
                ctrs = map (\<lambda>v. if v = ''A'' then ctr_a config else ctr_b config) variants
            in
            case sample (nat n) (rng_rand R) g2 of (u1, g3) \<Rightarrow>
            let clicked_arr = map2 (\<lambda>x c. if x < c then 1 else 0) u1 ctrs;
                convs = map (\<lambda>v. if v = ''A'' then conv_a config else conv_b config) variants
            in
            case sample (nat n) (rng_rand R) g3 of (u2, g4) \<Rightarrow>
            let converted_arr = map2 (\<lambda>x c. if x < c then 1 else 0) u2 convs;
                means = map (\<lambda>v. if v = ''A'' then rev_mean_a config else rev_mean_b config) variants
            in
            if rev_std config < 0 then Inl NumpyValueError
            else
              case sample_each (\<lambda>m. rng_normal R m (rev_std config)) means g4 of (z, g5) \<Rightarrow>
              let revenue_arr = map2 (\<lambda>k x. if k = 1 then max x 0 else 0) converted_arr z in
              if n \<noteq> 0 \<and> n div 2 + 1 \<le> 1 then Inl NumpyValueError
              else
                case sample (nat n) (rng_randint R 1 (n div 2 + 1)) g5 of (uids, g6) \<Rightarrow>
                Inr (DataFrame [1..n] uids variants clicked_arr converted_arr revenue_arr, g6))"

section \<open>Notions of the specification and sample inputs\<close>




text \<open>
  A group's rate as \<open>binary_ztest\<close> computes it: the column's sum over the row count,
  divided as doubles.
\<close>

definition group_rate :: "(row \<Rightarrow> int) \<Rightarrow> dataframe \<Rightarrow> string \<Rightarrow> real" where
  "group_rate col d l =
     f64_div (to_f64 (sum_list (map col (group_rows d l))))
             (to_f64 (int (length (group_rows d l))))"


text \<open>The p-values the two library tests hand back on the samples of a frame.\<close>

definition ztest_p :: "stats_lib \<Rightarrow> (row \<Rightarrow> int) \<Rightarrow> dataframe \<Rightarrow> pyfloat" where
  "ztest_p L col d =
     snd (proportions_ztest L
       [sum_list (map col (group_rows d ''A'')), sum_list (map col (group_rows d ''B''))]
       [length (group_rows d ''A''), length (group_rows d ''B'')])"

definition welch_p :: "stats_lib \<Rightarrow> dataframe \<Rightarrow> pyfloat" where
  "welch_p L d =
     snd (ttest_ind L (map revenue (group_rows d ''A'')) (map revenue (group_rows d ''B'')))"

text \<open>The frame \<^verbatim>\<open>self.df[self.df["clicked"] == 1]\<close>.\<close>

definition clicked_rows :: "dataframe \<Rightarrow> dataframe" where
  "clicked_rows d = d\<lparr>rows := filter (\<lambda>r. clicked r = 1) (rows d)\<rparr>"

text \<open>
  A stand-in for the two library tests, to run the analyzer on concrete frames: it
  answers statistic 0 and p-value 1 whatever the samples.
\<close>

definition stub_stats :: stats_lib where
  "stub_stats = \<lparr>proportions_ztest = (\<lambda>s n. (Num 0, Num 1)),
                  ttest_ind = (\<lambda>a b. (Num 0, Num 1))\<rparr>"

definition analysis_columns :: "string list" where
  "analysis_columns =
     [''impression_id'', ''user_id'', ''variant'', ''clicked'', ''converted'', ''revenue'']"

definition mk_row :: "int \<Rightarrow> string \<Rightarrow> int \<Rightarrow> int \<Rightarrow> real \<Rightarrow> row" where
  "mk_row i v c k r =
     \<lparr>impression_id = i, user_id = 1, variant = v, clicked = c, converted = k, revenue = r\<rparr>"

text \<open>
  The frame of \<^verbatim>\<open>_make_simple_df_for_ctr\<close> in \<^verbatim>\<open>tests/test_analysis.py\<close>: 100 rows of
  A with 20 clicks, then 100 rows of B with 50 clicks, no conversion and no revenue.
\<close>

definition simple_df_for_ctr :: dataframe where
  "simple_df_for_ctr = \<lparr>columns = analysis_columns,
     rows = map (\<lambda>i. mk_row i (if i \<le> 100 then ''A'' else ''B'')
                  (if i \<le> 20 \<or> (100 < i \<and> i \<le> 150) then 1 else 0) 0 0) [1..200]\<rparr>"

text \<open>Two rows: variant A never clicked, variant B clicked and converted.\<close>

definition zero_baseline_df :: dataframe where
  "zero_baseline_df = \<lparr>columns = analysis_columns,
     rows = [mk_row 1 ''A'' 0 0 0, mk_row 2 ''B'' 1 1 5]\<rparr>"

text \<open>A frame whose rows are all of variant A.\<close>

definition only_a_df :: dataframe where
  "only_a_df = \<lparr>columns = analysis_columns,
     rows = [mk_row 1 ''A'' 1 0 0, mk_row 2 ''A'' 0 0 0]\<rparr>"

text \<open>Both variants clicked; only B converted and earned revenue.\<close>

definition clicked_df :: dataframe where
  "clicked_df = \<lparr>columns = analysis_columns,
     rows = [mk_row 1 ''A'' 1 0 0, mk_row 2 ''B'' 1 1 5, mk_row 3 ''B'' 0 0 0]\<rparr>"

text \<open>Both variants, and no click at all.\<close>

definition no_clicks_df :: dataframe where
  "no_clicks_df = \<lparr>columns = analysis_columns,
     rows = [mk_row 1 ''A'' 0 0 0, mk_row 2 ''B'' 0 1 5]\<rparr>"

text \<open>
  A small generator to run the sampler on: its state is a counter, every draw advances
  it by one, and a seed sets it.
\<close>

definition counter_rng :: "nat np_random" where
  "counter_rng =
     \<lparr>rng_seed = (\<lambda>s. nat s),
      rng_choice = (\<lambda>g. (even g, Suc g)),
      rng_rand = (\<lambda>g. (real (g mod 4) / 4, Suc g)),
      rng_normal = (\<lambda>loc scale g. (loc + scale * (real (g mod 3) - 6), Suc g)),
      rng_randint = (\<lambda>low high g. (low + int g mod (high - low), Suc g))\<rparr>"

definition sample_config :: AdExperimentConfig where
  "sample_config =
     \<lparr>n_impressions = 4, ctr_a = 1 / 2, ctr_b = 3 / 5, conv_a = 1 / 2, conv_b = 3 / 5,
      rev_mean_a = 10, rev_mean_b = 11, rev_std = 2, seed = Some 19\<rparr>"


text \<open>The frame the sampler returns on \<open>sample_config\<close> with \<open>counter_rng\<close>.\<close>

definition sample_frame :: dataframe where
  "sample_frame = \<lparr>columns = analysis_columns,
     rows = [\<lparr>impression_id = 1, user_id = 2, variant = ''B'', clicked = 0, converted = 0, revenue = 0\<rparr>,
             \<lparr>impression_id = 2, user_id = 1, variant = ''A'', clicked = 1, converted = 1, revenue = 2\<rparr>,
             \<lparr>impression_id = 3, user_id = 2, variant = ''B'', clicked = 1, converted = 1, revenue = 0\<rparr>,
             \<lparr>impression_id = 4, user_id = 1, variant = ''A'', clicked = 0, converted = 0, revenue = 0\<rparr>]\<rparr>"

text \<open>
  The configurations on which the sampler returns a frame: a seed, if given, that numpy
  accepts, at least two impressions, and a standard deviation that is not negative.
\<close>

definition in_domain :: "AdExperimentConfig \<Rightarrow> bool" where
  "in_domain config =
     ((case seed config of None \<Rightarrow> True | Some s \<Rightarrow> 0 \<le> s \<and> s < 2 ^ 32)
      \<and> 2 \<le> n_impressions config \<and> 0 \<le> rev_std config)"

section \<open>Properties of the double rounding\<close>




























lemma fl64_zero: "fl64 0 = 0"
  by (simp add: fl64_def)




section \<open>Properties of the analyzer\<close>

subsection \<open>Construction and grouping\<close>

lemma AbTestAnalyzer_Inr:
  "AbTestAnalyzer d al = Inr self \<Longrightarrow> self = \<lparr>df = d, alpha = al\<rparr> \<and> required_cols \<subseteq> set (columns d)"
  by (auto simp: AbTestAnalyzer_def Let_def split: if_splits)

lemma AbTestAnalyzer_ok:
  "required_cols \<subseteq> set (columns d) \<Longrightarrow> AbTestAnalyzer d al = Inr \<lparr>df = d, alpha = al\<rparr>"
  by (auto simp: AbTestAnalyzer_def Let_def)

lemma required_cols_mem:
  "required_cols \<subseteq> S \<Longrightarrow> ''variant'' \<in> S \<and> ''clicked'' \<in> S \<and> ''converted'' \<in> S \<and> ''revenue'' \<in> S"
  by (simp add: required_cols_def)

lemma group_rows_nonempty: "l \<in> group_index d \<Longrightarrow> 0 < length (group_rows d l)"
  by (auto simp: group_index_def group_rows_def filter_empty_conv)




lemma binary_ztest_value:
  assumes cols: "required_cols \<subseteq> set (columns d)"
    and a: "''A'' \<in> group_index d" and b: "''B'' \<in> group_index d"
    and c: "success_col = ''clicked'' \<and> col = clicked \<or> success_col = ''converted'' \<and> col = converted"
  shows "binary_ztest L \<lparr>df = d, alpha = al\<rparr> success_col name =
     Inr \<lparr>metric_name = name, variant_a = group_rate col d ''A'',
          variant_b = group_rate col d ''B'',
          lift = (if group_rate col d ''A'' > 0
                  then Num (f64_div (f64_sub (group_rate col d ''B'') (group_rate col d ''A''))
                                    (group_rate col d ''A''))
                  else NaN),
          p_value = ztest_p L col d, significant = pf_less (ztest_p L col d) al\<rparr>"
  using required_cols_mem [OF cols] a b c
  by (auto simp: binary_ztest_def int_column_def Let_def group_rate_def ztest_p_def)

lemma binary_ztest_missing:
  assumes cols: "required_cols \<subseteq> set (columns d)"
    and ab: "''A'' \<notin> group_index d \<or> ''B'' \<notin> group_index d"
    and c: "success_col = ''clicked'' \<or> success_col = ''converted''"
  shows "binary_ztest L \<lparr>df = d, alpha = al\<rparr> success_col name = Inl MissingVariantError"
  using required_cols_mem [OF cols] ab c
  by (auto simp: binary_ztest_def int_column_def)








subsection \<open>What the operations compute\<close>

lemma revenue_value:
  assumes cols: "required_cols \<subseteq> set (columns d)"
    and a: "''A'' \<in> group_index d" and b: "''B'' \<in> group_index d"
  shows "revenue_per_impression L \<lparr>df = d, alpha = al\<rparr> =
    (let rev_a = map revenue (group_rows d ''A'');
         rev_b = map revenue (group_rows d ''B'');
         pv = snd (ttest_ind L rev_a rev_b)
     in Inr \<lparr>metric_name = ''revenue_per_impression'', variant_a = mean rev_a,
              variant_b = mean rev_b,
              lift = (if mean rev_a \<noteq> 0 then Num ((mean rev_b - mean rev_a) / mean rev_a) else NaN),
              p_value = pv, significant = pf_less pv al\<rparr>)"
  using required_cols_mem [OF cols] a b
  by (auto simp: revenue_per_impression_def Let_def)

lemma revenue_missing:
  assumes cols: "required_cols \<subseteq> set (columns d)"
    and ab: "''A'' \<notin> group_index d \<or> ''B'' \<notin> group_index d"
  shows "revenue_per_impression L \<lparr>df = d, alpha = al\<rparr> = Inl MissingVariantError"
  using required_cols_mem [OF cols] ab
  by (auto simp: revenue_per_impression_def)

lemma conversion_rate_clicks:
  assumes cols: "required_cols \<subseteq> set (columns d)"
  shows "conversion_rate L \<lparr>df = d, alpha = al\<rparr> ''clicks'' =
    (if rows (clicked_rows d) = [] then Inl NoClicksError
     else binary_ztest L \<lparr>df = clicked_rows d, alpha = al\<rparr> ''converted'' ''conversion_rate_per_click'')"
proof -
  have c: "''clicked'' \<in> set (columns d)" using required_cols_mem [OF cols] by simp
  then have ne: "columns d \<noteq> []" by auto
  have "required_cols \<subseteq> set (columns (clicked_rows d))"
    using cols by (simp add: clicked_rows_def)
  then have "AbTestAnalyzer (clicked_rows d) al = Inr \<lparr>df = clicked_rows d, alpha = al\<rparr>"
    by (rule AbTestAnalyzer_ok)
  then show ?thesis
    using c ne by (simp add: conversion_rate_def Let_def empty_df_def clicked_rows_def)
qed

lemma binary_ztest_zero_baseline:
  assumes cols: "required_cols \<subseteq> set (columns d)"
    and a: "''A'' \<in> group_index d" and b: "''B'' \<in> group_index d"
    and c: "success_col = ''clicked'' \<and> col = clicked \<or> success_col = ''converted'' \<and> col = converted"
    and z: "group_rate col d ''A'' = 0"
  shows "binary_ztest L \<lparr>df = d, alpha = al\<rparr> success_col name =
     Inr \<lparr>metric_name = name, variant_a = 0, variant_b = group_rate col d ''B'',
          lift = NaN, p_value = ztest_p L col d, significant = pf_less (ztest_p L col d) al\<rparr>"
  unfolding binary_ztest_value [OF cols a b c] z by simp

subsection \<open>Rates and lift of the binary metrics\<close>







subsection \<open>A missing variant\<close>

text \<open>
  Claim C2. When no row carries the label A, or no row carries the label B, each of
  \<open>ctr\<close>, \<open>conversion_rate\<close> per impression and \<open>revenue_per_impression\<close> fails with
  \<open>MissingVariantError\<close>.
\<close>

theorem missing_variant_fails:
  assumes init: "AbTestAnalyzer d al = Inr self"
    and ab: "''A'' \<notin> group_index d \<or> ''B'' \<notin> group_index d"
  shows "ctr L self = Inl MissingVariantError
    \<and> conversion_rate L self ''impressions'' = Inl MissingVariantError
    \<and> revenue_per_impression L self = Inl MissingVariantError"
proof -
  from AbTestAnalyzer_Inr [OF init]
  have self: "self = \<lparr>df = d, alpha = al\<rparr>" and cols: "required_cols \<subseteq> set (columns d)"
    by simp_all
  show ?thesis
    by (simp add: self ctr_def conversion_rate_def binary_ztest_missing [OF cols ab]
        revenue_missing [OF cols ab])
qed

theorem missing_variant_fails_witness:
  "AbTestAnalyzer only_a_df (1 / 20) = Inr \<lparr>df = only_a_df, alpha = 1 / 20\<rparr>
   \<and> ''B'' \<notin> group_index only_a_df
   \<and> ctr stub_stats \<lparr>df = only_a_df, alpha = 1 / 20\<rparr> = Inl MissingVariantError
   \<and> conversion_rate stub_stats \<lparr>df = only_a_df, alpha = 1 / 20\<rparr> ''impressions'' = Inl MissingVariantError
   \<and> revenue_per_impression stub_stats \<lparr>df = only_a_df, alpha = 1 / 20\<rparr> = Inl MissingVariantError"
proof -
  have h1: "AbTestAnalyzer only_a_df (1 / 20) = Inr \<lparr>df = only_a_df, alpha = 1 / 20\<rparr>"
    by code_simp
  have h2: "''B'' \<notin> group_index only_a_df" by code_simp
  from missing_variant_fails [OF h1 disjI2 [OF h2], of stub_stats] h1 h2
  show ?thesis by simp
qed


subsection \<open>The column check of the constructor\<close>

text \<open>
  Claim C3. On a frame that lacks at least one of the columns variant, clicked, converted
  and revenue, the constructor fails with a \<open>SchemaError\<close> that carries exactly the
  missing names; when only revenue is missing it carries revenue alone; when all four
  are present the constructor returns the analyzer.
\<close>

theorem schema_check:
  "({''variant'', ''clicked'', ''converted'', ''revenue''} - set (columns d) \<noteq> {} \<longrightarrow>
      AbTestAnalyzer d al =
        Inl (SchemaError ({''variant'', ''clicked'', ''converted'', ''revenue''} - set (columns d))))
   \<and> (''revenue'' \<notin> set (columns d) \<and> ''variant'' \<in> set (columns d)
        \<and> ''clicked'' \<in> set (columns d) \<and> ''converted'' \<in> set (columns d) \<longrightarrow>
      AbTestAnalyzer d al = Inl (SchemaError {''revenue''}))
   \<and> ({''variant'', ''clicked'', ''converted'', ''revenue''} \<subseteq> set (columns d) \<longrightarrow>
      AbTestAnalyzer d al = Inr \<lparr>df = d, alpha = al\<rparr>)"
proof (intro conjI impI)
  assume "{''variant'', ''clicked'', ''converted'', ''revenue''} - set (columns d) \<noteq> {}"
  then show "AbTestAnalyzer d al =
      Inl (SchemaError ({''variant'', ''clicked'', ''converted'', ''revenue''} - set (columns d)))"
    by (simp add: AbTestAnalyzer_def required_cols_def Let_def)
next
  assume h: "''revenue'' \<notin> set (columns d) \<and> ''variant'' \<in> set (columns d)
        \<and> ''clicked'' \<in> set (columns d) \<and> ''converted'' \<in> set (columns d)"
  then have "required_cols - set (columns d) = {''revenue''}"
    unfolding required_cols_def by blast
  then show "AbTestAnalyzer d al = Inl (SchemaError {''revenue''})"
    by (simp add: AbTestAnalyzer_def Let_def)
next
  assume "{''variant'', ''clicked'', ''converted'', ''revenue''} \<subseteq> set (columns d)"
  then have "required_cols \<subseteq> set (columns d)" by (simp add: required_cols_def)
  then show "AbTestAnalyzer d al = Inr \<lparr>df = d, alpha = al\<rparr>" by (rule AbTestAnalyzer_ok)
qed

theorem schema_check_witness:
  "AbTestAnalyzer \<lparr>columns = [''impression_id'', ''variant'', ''converted''], rows = []\<rparr> (1 / 20)
     = Inl (SchemaError {''clicked'', ''revenue''})
   \<and> AbTestAnalyzer \<lparr>columns = [''variant'', ''clicked'', ''converted''], rows = []\<rparr> (1 / 20)
     = Inl (SchemaError {''revenue''})
   \<and> AbTestAnalyzer only_a_df (1 / 20) = Inr \<lparr>df = only_a_df, alpha = 1 / 20\<rparr>"
proof -
  have 1: "{''variant'', ''clicked'', ''converted'', ''revenue''}
      - set (columns \<lparr>columns = [''impression_id'', ''variant'', ''converted''], rows = []\<rparr>)
      = {''clicked'', ''revenue''}"
    by auto
  have 2: "{''variant'', ''clicked'', ''converted'', ''revenue''} \<subseteq> set (columns only_a_df)"
    by (simp add: only_a_df_def analysis_columns_def)
  show ?thesis
    using schema_check [of "\<lparr>columns = [''impression_id'', ''variant'', ''converted''], rows = []\<rparr>" "1 / 20"]
      schema_check [of "\<lparr>columns = [''variant'', ''clicked'', ''converted''], rows = []\<rparr>" "1 / 20"]
      schema_check [of only_a_df "1 / 20"] 1 2
    by simp
qed


subsection \<open>A zero baseline\<close>

text \<open>
  Claim C5. On a frame with both variants, when the baseline of A is exactly zero (its
  rate for a binary metric, its mean revenue for \<open>revenue_per_impression\<close>) the metric
  returns a result: the lift is not-a-number and every other field has its usual value
  (the name of the metric, the two statistics, the p-value of the library test and its
  comparison with alpha).
\<close>

theorem zero_baseline_lift_nan:
  assumes init: "AbTestAnalyzer d al = Inr self"
    and a: "''A'' \<in> group_index d" and b: "''B'' \<in> group_index d"
  shows "(group_rate clicked d ''A'' = 0 \<longrightarrow>
            ctr L self =
              Inr \<lparr>metric_name = ''click_through_rate'', variant_a = 0,
                   variant_b = group_rate clicked d ''B'', lift = NaN,
                   p_value = ztest_p L clicked d,
                   significant = pf_less (ztest_p L clicked d) al\<rparr>)
    \<and> (group_rate converted d ''A'' = 0 \<longrightarrow>
            conversion_rate L self ''impressions'' =
              Inr \<lparr>metric_name = ''conversion_rate_per_impression'', variant_a = 0,
                   variant_b = group_rate converted d ''B'', lift = NaN,
                   p_value = ztest_p L converted d,
                   significant = pf_less (ztest_p L converted d) al\<rparr>)
    \<and> (''A'' \<in> group_index (clicked_rows d) \<and> ''B'' \<in> group_index (clicked_rows d)
          \<and> group_rate converted (clicked_rows d) ''A'' = 0 \<longrightarrow>
            conversion_rate L self ''clicks'' =
              Inr \<lparr>metric_name = ''conversion_rate_per_click'', variant_a = 0,
                   variant_b = group_rate converted (clicked_rows d) ''B'', lift = NaN,
                   p_value = ztest_p L converted (clicked_rows d),
                   significant = pf_less (ztest_p L converted (clicked_rows d)) al\<rparr>)
    \<and> (mean (map revenue (group_rows d ''A'')) = 0 \<longrightarrow>
            revenue_per_impression L self =
              Inr \<lparr>metric_name = ''revenue_per_impression'', variant_a = 0,
                   variant_b = mean (map revenue (group_rows d ''B'')), lift = NaN,
                   p_value = welch_p L d, significant = pf_less (welch_p L d) al\<rparr>)"
proof -
  from AbTestAnalyzer_Inr [OF init]
  have self: "self = \<lparr>df = d, alpha = al\<rparr>" and cols: "required_cols \<subseteq> set (columns d)"
    by simp_all
  have ccols: "required_cols \<subseteq> set (columns (clicked_rows d))"
    using cols by (simp add: clicked_rows_def)
  have 1: "group_rate clicked d ''A'' = 0 \<longrightarrow>
            ctr L self =
              Inr \<lparr>metric_name = ''click_through_rate'', variant_a = 0,
                   variant_b = group_rate clicked d ''B'', lift = NaN,
                   p_value = ztest_p L clicked d,
                   significant = pf_less (ztest_p L clicked d) al\<rparr>"
    by (simp add: self ctr_def binary_ztest_zero_baseline [OF cols a b])
  have 2: "group_rate converted d ''A'' = 0 \<longrightarrow>
            conversion_rate L self ''impressions'' =
              Inr \<lparr>metric_name = ''conversion_rate_per_impression'', variant_a = 0,
                   variant_b = group_rate converted d ''B'', lift = NaN,
                   p_value = ztest_p L converted d,
                   significant = pf_less (ztest_p L converted d) al\<rparr>"
    by (simp add: self conversion_rate_def binary_ztest_zero_baseline [OF cols a b])
  have 3: "''A'' \<in> group_index (clicked_rows d) \<and> ''B'' \<in> group_index (clicked_rows d)
          \<and> group_rate converted (clicked_rows d) ''A'' = 0 \<longrightarrow>
            conversion_rate L self ''clicks'' =
              Inr \<lparr>metric_name = ''conversion_rate_per_click'', variant_a = 0,
                   variant_b = group_rate converted (clicked_rows d) ''B'', lift = NaN,
                   p_value = ztest_p L converted (clicked_rows d),
                   significant = pf_less (ztest_p L converted (clicked_rows d)) al\<rparr>"
  proof
    assume h: "''A'' \<in> group_index (clicked_rows d) \<and> ''B'' \<in> group_index (clicked_rows d)
          \<and> group_rate converted (clicked_rows d) ''A'' = 0"
    then have ne: "rows (clicked_rows d) \<noteq> []" by (auto simp: group_index_def)
    show "conversion_rate L self ''clicks'' =
              Inr \<lparr>metric_name = ''conversion_rate_per_click'', variant_a = 0,
                   variant_b = group_rate converted (clicked_rows d) ''B'', lift = NaN,
                   p_value = ztest_p L converted (clicked_rows d),
                   significant = pf_less (ztest_p L converted (clicked_rows d)) al\<rparr>"
      using h ne
      by (simp add: self conversion_rate_clicks [OF cols] binary_ztest_zero_baseline [OF ccols])
  qed
  have 4: "mean (map revenue (group_rows d ''A'')) = 0 \<longrightarrow>
            revenue_per_impression L self =
              Inr \<lparr>metric_name = ''revenue_per_impression'', variant_a = 0,
                   variant_b = mean (map revenue (group_rows d ''B'')), lift = NaN,
                   p_value = welch_p L d, significant = pf_less (welch_p L d) al\<rparr>"
    by (simp add: self revenue_value [OF cols a b] Let_def welch_p_def)
  from 1 2 3 4 show ?thesis by blast
qed

theorem zero_baseline_lift_nan_witness:
  "AbTestAnalyzer clicked_df (1 / 20) = Inr \<lparr>df = clicked_df, alpha = 1 / 20\<rparr>
   \<and> AbTestAnalyzer zero_baseline_df (1 / 20) = Inr \<lparr>df = zero_baseline_df, alpha = 1 / 20\<rparr>
   \<and> group_rate clicked zero_baseline_df ''A'' = 0
   \<and> group_rate converted clicked_df ''A'' = 0
   \<and> group_rate converted (clicked_rows clicked_df) ''A'' = 0
   \<and> mean (map revenue (group_rows clicked_df ''A'')) = 0
   \<and> ctr stub_stats \<lparr>df = zero_baseline_df, alpha = 1 / 20\<rparr> =
       Inr \<lparr>metric_name = ''click_through_rate'', variant_a = 0, variant_b = 1,
            lift = NaN, p_value = Num 1, significant = False\<rparr>
   \<and> conversion_rate stub_stats \<lparr>df = clicked_df, alpha = 1 / 20\<rparr> ''impressions'' =
       Inr \<lparr>metric_name = ''conversion_rate_per_impression'', variant_a = 0, variant_b = 1 / 2,
            lift = NaN, p_value = Num 1, significant = False\<rparr>
   \<and> conversion_rate stub_stats \<lparr>df = clicked_df, alpha = 1 / 20\<rparr> ''clicks'' =
       Inr \<lparr>metric_name = ''conversion_rate_per_click'', variant_a = 0, variant_b = 1,
            lift = NaN, p_value = Num 1, significant = False\<rparr>
   \<and> revenue_per_impression stub_stats \<lparr>df = clicked_df, alpha = 1 / 20\<rparr> =
       Inr \<lparr>metric_name = ''revenue_per_impression'', variant_a = 0, variant_b = 5 / 2,
            lift = NaN, p_value = Num 1, significant = False\<rparr>"
proof -
  have i1: "AbTestAnalyzer clicked_df (1 / 20) = Inr \<lparr>df = clicked_df, alpha = 1 / 20\<rparr>"
    by code_simp
  have i2: "AbTestAnalyzer zero_baseline_df (1 / 20) = Inr \<lparr>df = zero_baseline_df, alpha = 1 / 20\<rparr>"
    by code_simp
  have a1: "''A'' \<in> group_index clicked_df" and b1: "''B'' \<in> group_index clicked_df"
    and a2: "''A'' \<in> group_index zero_baseline_df" and b2: "''B'' \<in> group_index zero_baseline_df"
    and a3: "''A'' \<in> group_index (clicked_rows clicked_df)"
    and b3: "''B'' \<in> group_index (clicked_rows clicked_df)"
    by code_simp+
  have z: "group_rate clicked zero_baseline_df ''A'' = 0"
      "group_rate converted clicked_df ''A'' = 0"
      "group_rate converted (clicked_rows clicked_df) ''A'' = 0"
      "mean (map revenue (group_rows clicked_df ''A'')) = 0"
    by code_simp+
  have v: "group_rate clicked zero_baseline_df ''B'' = 1"
      "group_rate converted clicked_df ''B'' = 1 / 2"
      "group_rate converted (clicked_rows clicked_df) ''B'' = 1"
      "mean (map revenue (group_rows clicked_df ''B'')) = 5 / 2"
    by code_simp+
  have p: "ztest_p stub_stats clicked zero_baseline_df = Num 1"
      "ztest_p stub_stats converted clicked_df = Num 1"
      "ztest_p stub_stats converted (clicked_rows clicked_df) = Num 1"
      "welch_p stub_stats clicked_df = Num 1"
    by (simp_all add: ztest_p_def welch_p_def stub_stats_def)
  show ?thesis
    using zero_baseline_lift_nan [OF i2 a2 b2, of stub_stats]
      zero_baseline_lift_nan [OF i1 a1 b1, of stub_stats] i1 i2 a3 b3 z v p
    by simp
qed

subsection \<open>Conversion per click\<close>

text \<open>
  Claim C6. With no row whose clicked cell is 1, \<open>conversion_rate\<close> per click fails
  with \<open>NoClicksError\<close>; with at least one, it is \<open>binary_ztest\<close> on the converted
  column of the frame restricted to the clicked rows.
\<close>

theorem conversion_per_click:
  assumes init: "AbTestAnalyzer d al = Inr self"
  shows "((\<forall>r \<in> set (rows d). clicked r \<noteq> 1) \<longrightarrow>
            conversion_rate L self ''clicks'' = Inl NoClicksError)
    \<and> ((\<exists>r \<in> set (rows d). clicked r = 1) \<longrightarrow>
            conversion_rate L self ''clicks'' =
              binary_ztest L \<lparr>df = clicked_rows d, alpha = al\<rparr>
                ''converted'' ''conversion_rate_per_click'')"
proof -
  from AbTestAnalyzer_Inr [OF init]
  have self: "self = \<lparr>df = d, alpha = al\<rparr>" and cols: "required_cols \<subseteq> set (columns d)"
    by simp_all
  have "rows (clicked_rows d) = [] \<longleftrightarrow> (\<forall>r \<in> set (rows d). clicked r \<noteq> 1)"
    by (simp add: clicked_rows_def filter_empty_conv)
  then show ?thesis
    by (auto simp: self conversion_rate_clicks [OF cols])
qed

theorem conversion_per_click_witness:
  "AbTestAnalyzer no_clicks_df (1 / 20) = Inr \<lparr>df = no_clicks_df, alpha = 1 / 20\<rparr>
   \<and> list_all (\<lambda>r. clicked r \<noteq> 1) (rows no_clicks_df)
   \<and> conversion_rate stub_stats \<lparr>df = no_clicks_df, alpha = 1 / 20\<rparr> ''clicks'' = Inl NoClicksError
   \<and> AbTestAnalyzer clicked_df (1 / 20) = Inr \<lparr>df = clicked_df, alpha = 1 / 20\<rparr>
   \<and> list_ex (\<lambda>r. clicked r = 1) (rows clicked_df)
   \<and> conversion_rate stub_stats \<lparr>df = clicked_df, alpha = 1 / 20\<rparr> ''clicks'' =
       Inr \<lparr>metric_name = ''conversion_rate_per_click'', variant_a = 0, variant_b = 1,
            lift = NaN, p_value = Num 1, significant = False\<rparr>"
proof -
  have i1: "AbTestAnalyzer no_clicks_df (1 / 20) = Inr \<lparr>df = no_clicks_df, alpha = 1 / 20\<rparr>"
    by code_simp
  have i2: "AbTestAnalyzer clicked_df (1 / 20) = Inr \<lparr>df = clicked_df, alpha = 1 / 20\<rparr>"
    by code_simp
  have n: "list_all (\<lambda>r. clicked r \<noteq> 1) (rows no_clicks_df)" by code_simp
  have e: "list_ex (\<lambda>r. clicked r = 1) (rows clicked_df)" by code_simp
  have b: "binary_ztest stub_stats \<lparr>df = clicked_rows clicked_df, alpha = 1 / 20\<rparr>
      ''converted'' ''conversion_rate_per_click'' =
       Inr \<lparr>metric_name = ''conversion_rate_per_click'', variant_a = 0, variant_b = 1,
            lift = NaN, p_value = Num 1, significant = False\<rparr>"
    by code_simp
  show ?thesis
    using conversion_per_click [OF i1, of stub_stats] conversion_per_click [OF i2, of stub_stats]
      i1 i2 n e b
    by (simp add: list_all_iff list_ex_iff)
qed

text \<open>
  Claim C10. On a frame with both variants and at least one clicked row, all of whose
  clicked rows carry one and the same label, \<open>conversion_rate\<close> per click fails with
  \<open>MissingVariantError\<close>: the presence of both variants is checked on the clicked rows.
\<close>

theorem clicks_single_variant_fails:
  assumes init: "AbTestAnalyzer d al = Inr self"
    and a: "''A'' \<in> group_index d" and b: "''B'' \<in> group_index d"
    and some: "\<exists>r \<in> set (rows d). clicked r = 1"
    and single: "\<forall>r \<in> set (rows d). clicked r = 1 \<longrightarrow> variant r = v"
  shows "conversion_rate L self ''clicks'' = Inl MissingVariantError"
proof -
  from AbTestAnalyzer_Inr [OF init]
  have self: "self = \<lparr>df = d, alpha = al\<rparr>" and cols: "required_cols \<subseteq> set (columns d)"
    by simp_all
  have ccols: "required_cols \<subseteq> set (columns (clicked_rows d))"
    using cols by (simp add: clicked_rows_def)
  have ne: "rows (clicked_rows d) \<noteq> []"
    using some by (simp add: clicked_rows_def filter_empty_conv)
  have "group_index (clicked_rows d) \<subseteq> {v}"
    using single by (auto simp: group_index_def clicked_rows_def)
  then have "''A'' \<notin> group_index (clicked_rows d) \<or> ''B'' \<notin> group_index (clicked_rows d)"
    by auto
  from binary_ztest_missing [OF ccols this, of "''converted''"] ne
  show ?thesis by (simp add: self conversion_rate_clicks [OF cols])
qed

theorem clicks_single_variant_fails_witness:
  "AbTestAnalyzer zero_baseline_df (1 / 20) = Inr \<lparr>df = zero_baseline_df, alpha = 1 / 20\<rparr>
   \<and> ''A'' \<in> group_index zero_baseline_df \<and> ''B'' \<in> group_index zero_baseline_df
   \<and> list_ex (\<lambda>r. clicked r = 1) (rows zero_baseline_df)
   \<and> list_all (\<lambda>r. clicked r \<noteq> 1 \<or> variant r = ''B'') (rows zero_baseline_df)
   \<and> conversion_rate stub_stats \<lparr>df = zero_baseline_df, alpha = 1 / 20\<rparr> ''clicks''
       = Inl MissingVariantError"
proof -
  have i: "AbTestAnalyzer zero_baseline_df (1 / 20) = Inr \<lparr>df = zero_baseline_df, alpha = 1 / 20\<rparr>"
    by code_simp
  have a: "''A'' \<in> group_index zero_baseline_df" and b: "''B'' \<in> group_index zero_baseline_df"
    by code_simp+
  have e: "list_ex (\<lambda>r. clicked r = 1) (rows zero_baseline_df)" by code_simp
  have s: "list_all (\<lambda>r. clicked r \<noteq> 1 \<or> variant r = ''B'') (rows zero_baseline_df)" by code_simp
  have e': "\<exists>r \<in> set (rows zero_baseline_df). clicked r = 1"
    using e by (simp add: list_ex_iff)
  have s': "\<forall>r \<in> set (rows zero_baseline_df). clicked r = 1 \<longrightarrow> variant r = ''B''"
    using s by (auto simp: list_all_iff)
  from clicks_single_variant_fails [OF i a b e' s', of stub_stats] i a b e s
  show ?thesis by simp
qed

subsection \<open>The p-value\<close>

lemma tail_twice:
  assumes "tail_ok sf"
  shows "unit_or_nan (Num (2 * sf \<bar>x\<bar>))"
proof -
  have "0 \<le> sf \<bar>x\<bar> \<and> sf \<bar>x\<bar> \<le> 1 / 2"
    using assms unfolding tail_ok_def by simp
  then show ?thesis by simp
qed

lemma two_sided_range:
  assumes "tail_ok sf"
  shows "unit_or_nan (snd (two_sided sf v s))"
proof -
  consider "s < 0" | "s = 0" | "0 < s" by linarith
  then show ?thesis
  proof cases
    case 1
    then show ?thesis by (simp add: two_sided_def)
  next
    case 2
    then show ?thesis by (simp add: two_sided_def)
  next
    case 3
    then have "snd (two_sided sf v s) = Num (2 * sf \<bar>v / sqrt s\<bar>)"
      unfolding two_sided_def by (simp only: if_False snd_conv not_less_iff_gr_or_eq split: if_split) auto
    then show ?thesis using tail_twice [OF assms] by (simp only:)
  qed
qed

lemma proportions_ztest_doc_range:
  assumes "tail_ok sf"
  shows "unit_or_nan (snd (proportions_ztest_doc sf cs ns))"
proof (cases "(sf, cs, ns)" rule: proportions_ztest_doc.cases)
  case (1 sf' c1 c2 n1 n2)
  then show ?thesis using two_sided_range [OF assms]
    by (simp only: proportions_ztest_doc.simps Let_def prod.inject split: if_split)
       (simp only: snd_conv unit_or_nan.simps simp_thms)
qed simp_all

lemma ttest_ind_doc_range:
  assumes "\<forall>k. tail_ok (sf k)"
  shows "unit_or_nan (snd (ttest_ind_doc sf a b))"
proof -
  have "unit_or_nan (snd (two_sided (sf k) v s))" for k v s
    using assms by (intro two_sided_range) simp
  then show ?thesis
    unfolding ttest_ind_doc_def Let_def
    by (simp only: split: if_split) (simp only: snd_conv unit_or_nan.simps simp_thms)
qed

lemma two_sided_zero: "two_sided sf 0 0 = (NaN, NaN)"
  by (simp add: two_sided_def)

lemma proportions_ztest_doc_zero:
  "snd (proportions_ztest_doc sf [0, 0] [n1, n2]) = NaN"
  by (simp add: two_sided_zero)

lemma binary_ztest_p_value:
  assumes "binary_ztest L self success_col name = Inr r"
  shows "\<exists>col. int_column success_col = Some col \<and> p_value r = ztest_p L col (df self)"
  using assms
  by (auto simp: binary_ztest_def Let_def ztest_p_def split: if_splits option.splits)


lemma conversion_rate_p_value:
  assumes "conversion_rate L self den = Inr r"
  shows "\<exists>col d'. p_value r = ztest_p L col d'"
  using assms
  by (auto simp: conversion_rate_def Let_def split: if_splits sum.splits
      dest!: binary_ztest_p_value)

lemma revenue_p_value:
  assumes "revenue_per_impression L self = Inr r"
  shows "p_value r = welch_p L (df self)"
  using assms
  by (auto simp: revenue_per_impression_def Let_def welch_p_def split: if_splits)

lemma ztest_p_doc_range:
  assumes "tail_ok nsf"
  shows "unit_or_nan (ztest_p (doc_stats nsf tsf) col d)"
  unfolding ztest_p_def doc_stats_def stats_lib.select_convs
  by (rule proportions_ztest_doc_range [OF assms])

lemma welch_p_doc_range:
  assumes "\<forall>k. tail_ok (tsf k)"
  shows "unit_or_nan (welch_p (doc_stats nsf tsf) d)"
  unfolding welch_p_def doc_stats_def stats_lib.select_convs
  by (rule ttest_ind_doc_range [OF assms])

lemma ztest_p_doc_zero:
  assumes "sum_list (map col (group_rows d ''A'')) = 0"
    and "sum_list (map col (group_rows d ''B'')) = 0"
  shows "ztest_p (doc_stats nsf tsf) col d = NaN"
  unfolding ztest_p_def doc_stats_def stats_lib.select_convs assms
  by (rule proportions_ztest_doc_zero)

lemma tail_ok_sample: "tail_ok sample_tail"
  unfolding tail_ok_def sample_tail_def
  by (auto simp: field_simps)

text \<open>
  Claim C4, as amended. With the two library tests as documented, and tail functions
  that answer a probability of at most one half on a statistic that is not negative,
  every result that \<open>ctr\<close>, \<open>conversion_rate\<close> (with either denominator) or
  \<open>revenue_per_impression\<close> returns has a p-value that is a number between 0 and 1 or
  is not-a-number. It is not-a-number for \<open>ctr\<close> and for \<open>conversion_rate\<close> per
  impression when neither variant has a success: the pooled variance is zero and the
  statistic is \<open>0 / 0\<close>.
\<close>

theorem p_value_unit_or_nan:
  assumes n: "tail_ok nsf" and t: "\<forall>k. tail_ok (tsf k)"
  shows "(\<forall>r. ctr (doc_stats nsf tsf) self = Inr r \<longrightarrow> unit_or_nan (p_value r))
    \<and> (\<forall>den r. conversion_rate (doc_stats nsf tsf) self den = Inr r \<longrightarrow> unit_or_nan (p_value r))
    \<and> (\<forall>r. revenue_per_impression (doc_stats nsf tsf) self = Inr r \<longrightarrow> unit_or_nan (p_value r))
    \<and> (\<forall>r. ctr (doc_stats nsf tsf) self = Inr r
            \<and> sum_list (map clicked (group_rows (df self) ''A'')) = 0
            \<and> sum_list (map clicked (group_rows (df self) ''B'')) = 0 \<longrightarrow> p_value r = NaN)
    \<and> (\<forall>r. conversion_rate (doc_stats nsf tsf) self ''impressions'' = Inr r
            \<and> sum_list (map converted (group_rows (df self) ''A'')) = 0
            \<and> sum_list (map converted (group_rows (df self) ''B'')) = 0 \<longrightarrow> p_value r = NaN)"
proof (intro conjI allI impI)
  fix r assume "ctr (doc_stats nsf tsf) self = Inr r"
  then obtain col where "p_value r = ztest_p (doc_stats nsf tsf) col (df self)"
    unfolding ctr_def by (blast dest: binary_ztest_p_value)
  then show "unit_or_nan (p_value r)" using ztest_p_doc_range [OF n] by simp
next
  fix den r assume "conversion_rate (doc_stats nsf tsf) self den = Inr r"
  then obtain col d' where "p_value r = ztest_p (doc_stats nsf tsf) col d'"
    by (blast dest: conversion_rate_p_value)
  then show "unit_or_nan (p_value r)" using ztest_p_doc_range [OF n] by simp
next
  fix r assume "revenue_per_impression (doc_stats nsf tsf) self = Inr r"
  then have "p_value r = welch_p (doc_stats nsf tsf) (df self)" by (rule revenue_p_value)
  then show "unit_or_nan (p_value r)" using welch_p_doc_range [OF t] by simp
next
  fix r assume h: "ctr (doc_stats nsf tsf) self = Inr r
      \<and> sum_list (map clicked (group_rows (df self) ''A'')) = 0
      \<and> sum_list (map clicked (group_rows (df self) ''B'')) = 0"
  then obtain col where c: "int_column ''clicked'' = Some col"
      "p_value r = ztest_p (doc_stats nsf tsf) col (df self)"
    unfolding ctr_def by (blast dest: binary_ztest_p_value)
  from c(1) have "col = clicked" by (simp add: int_column_def)
  with c(2) h show "p_value r = NaN" by (simp add: ztest_p_doc_zero)
next
  fix r assume h: "conversion_rate (doc_stats nsf tsf) self ''impressions'' = Inr r
      \<and> sum_list (map converted (group_rows (df self) ''A'')) = 0
      \<and> sum_list (map converted (group_rows (df self) ''B'')) = 0"
  then have "binary_ztest (doc_stats nsf tsf) self ''converted''
      ''conversion_rate_per_impression'' = Inr r"
    by (simp add: conversion_rate_def)
  then obtain col where c: "int_column ''converted'' = Some col"
      "p_value r = ztest_p (doc_stats nsf tsf) col (df self)"
    by (blast dest: binary_ztest_p_value)
  from c(1) have "col = converted" by (simp add: int_column_def)
  with c(2) h show "p_value r = NaN" by (simp add: ztest_p_doc_zero)
qed

lemma simple_df_counts:
  "sum_list (map clicked (group_rows simple_df_for_ctr ''A'')) = 20"
  "sum_list (map clicked (group_rows simple_df_for_ctr ''B'')) = 50"
  "sum_list (map converted (group_rows simple_df_for_ctr ''A'')) = 0"
  "sum_list (map converted (group_rows simple_df_for_ctr ''B'')) = 0"
  "length (group_rows simple_df_for_ctr ''A'') = 100"
  "length (group_rows simple_df_for_ctr ''B'') = 100"
  by code_simp+

lemma simple_df_ok:
  "required_cols \<subseteq> set (columns simple_df_for_ctr)"
  "''A'' \<in> group_index simple_df_for_ctr" "''B'' \<in> group_index simple_df_for_ctr"
  by code_simp+

text \<open>
  The frame of the repository's test: its clicks give a p-value that is a number, its
  conversions, of which there are none, give not-a-number.
\<close>

theorem p_value_unit_or_nan_witness:
  "tail_ok sample_tail
   \<and> (\<exists>r p. ctr sample_stats \<lparr>df = simple_df_for_ctr, alpha = 1 / 20\<rparr> = Inr r
         \<and> p_value r = Num p \<and> 0 \<le> p \<and> p \<le> 1)
   \<and> (\<exists>r. conversion_rate sample_stats \<lparr>df = simple_df_for_ctr, alpha = 1 / 20\<rparr>
             ''impressions'' = Inr r \<and> p_value r = NaN)"
proof -
  let ?a = "\<lparr>df = simple_df_for_ctr, alpha = 1 / 20\<rparr>"
  have t: "\<forall>k. tail_ok ((\<lambda>dof. sample_tail) k)" by (simp add: tail_ok_sample)
  note range = p_value_unit_or_nan [OF tail_ok_sample t, of ?a, folded sample_stats_def]
  obtain r1 where r1: "ctr sample_stats ?a = Inr r1"
      "p_value r1 = ztest_p sample_stats clicked simple_df_for_ctr"
    by (simp add: ctr_def binary_ztest_value [OF simple_df_ok])
  have "\<exists>p. ztest_p sample_stats clicked simple_df_for_ctr = Num p"
    by (simp add: ztest_p_def sample_stats_def doc_stats_def simple_df_counts two_sided_def)
  then obtain p where p: "p_value r1 = Num p" using r1(2) by auto
  from range r1(1) have "unit_or_nan (p_value r1)" by blast
  with p have 1: "0 \<le> p \<and> p \<le> 1" by simp
  obtain r2 where r2: "conversion_rate sample_stats ?a ''impressions'' = Inr r2"
    by (simp add: conversion_rate_def binary_ztest_value [OF simple_df_ok])
  have "sum_list (map converted (group_rows (df ?a) ''A'')) = 0
      \<and> sum_list (map converted (group_rows (df ?a) ''B'')) = 0"
    by (simp add: simple_df_counts)
  with range r2 have 2: "p_value r2 = NaN" by blast
  from tail_ok_sample r1(1) p 1 r2 2 show ?thesis by blast
qed

text \<open>
  The claim as it was stated, a p-value between 0 and 1 on every result, fails on that
  frame: \<open>conversion_rate\<close> per impression returns a result whose p-value is
  not-a-number.
\<close>

theorem p_value_range_counterexample:
  "AbTestAnalyzer simple_df_for_ctr (1 / 20) = Inr \<lparr>df = simple_df_for_ctr, alpha = 1 / 20\<rparr>
   \<and> conversion_rate sample_stats \<lparr>df = simple_df_for_ctr, alpha = 1 / 20\<rparr> ''impressions'' =
       Inr \<lparr>metric_name = ''conversion_rate_per_impression'', variant_a = 0, variant_b = 0,
            lift = NaN, p_value = NaN, significant = False\<rparr>"
proof -
  have i: "AbTestAnalyzer simple_df_for_ctr (1 / 20) = Inr \<lparr>df = simple_df_for_ctr, alpha = 1 / 20\<rparr>"
    by code_simp
  have z: "ztest_p sample_stats converted simple_df_for_ctr = NaN"
    unfolding sample_stats_def by (rule ztest_p_doc_zero) (simp_all add: simple_df_counts)
  have g: "group_rate converted simple_df_for_ctr ''A'' = 0"
      "group_rate converted simple_df_for_ctr ''B'' = 0"
    by (simp_all add: group_rate_def simple_df_counts to_f64_def f64_div_def fl64_zero)
  have "conversion_rate sample_stats \<lparr>df = simple_df_for_ctr, alpha = 1 / 20\<rparr> ''impressions'' =
       Inr \<lparr>metric_name = ''conversion_rate_per_impression'', variant_a = 0, variant_b = 0,
            lift = NaN, p_value = NaN, significant = False\<rparr>"
    by (simp add: conversion_rate_def binary_ztest_value [OF simple_df_ok] g z)
  with i show ?thesis by simp
qed

section \<open>Properties of the generator\<close>

lemma length_sample_each:
  "sample_each f ps g = (xs, g') \<Longrightarrow> length xs = length ps"
proof (induction ps arbitrary: g xs g')
  case Nil
  then show ?case by simp
next
  case (Cons p ps)
  then show ?case by (auto split: prod.splits)
qed

lemma length_sample: "sample n f g = (xs, g') \<Longrightarrow> length xs = n"
  by (auto simp: sample_def dest: length_sample_each)

lemma zip_map2_snd:
  "(k, y) \<in> set (zip ks (map2 f ks zs)) \<Longrightarrow> \<exists>z. y = f k z"
proof (induction ks arbitrary: zs)
  case Nil
  then show ?case by simp
next
  case (Cons a ks)
  then show ?case by (cases zs) auto
qed

lemma DataFrame_row:
  "r \<in> set (rows (DataFrame ids uids vs cs ks rs)) \<Longrightarrow> (converted r, revenue r) \<in> set (zip ks rs)"
proof -
  assume "r \<in> set (rows (DataFrame ids uids vs cs ks rs))"
  then obtain i u v c k x where r: "converted r = k" "revenue r = x"
    and m: "(i, u, v, c, k, x) \<in> set (zip ids (zip uids (zip vs (zip cs (zip ks rs)))))"
    by (auto simp: DataFrame_def)
  from m have "(u, v, c, k, x) \<in> set (zip uids (zip vs (zip cs (zip ks rs))))"
    by (rule set_zip_rightD)
  then have "(v, c, k, x) \<in> set (zip vs (zip cs (zip ks rs)))" by (rule set_zip_rightD)
  then have "(c, k, x) \<in> set (zip cs (zip ks rs))" by (rule set_zip_rightD)
  then have "(k, x) \<in> set (zip ks rs)" by (rule set_zip_rightD)
  with r show ?thesis by simp
qed

lemma DataFrame_shape:
  assumes "length uids = length ids" "length vs = length ids" "length cs = length ids"
    "length ks = length ids" "length rs = length ids"
  shows "length (rows (DataFrame ids uids vs cs ks rs)) = length ids
    \<and> map impression_id (rows (DataFrame ids uids vs cs ks rs)) = ids"
proof -
  let ?z = "zip uids (zip vs (zip cs (zip ks rs)))"
  have l: "length ?z = length ids" using assms by simp
  have "map impression_id (rows (DataFrame ids uids vs cs ks rs)) = map fst (zip ids ?z)"
    by (simp add: DataFrame_def split_def comp_def)
  also have "\<dots> = ids" using l by simp
  finally show ?thesis using l by (simp add: DataFrame_def)
qed

lemma generate_Inr:
  assumes "generate_synthetic_data R config g0 = Inr (d, g)"
  shows "\<exists>uids vs cs ks zs.
      d = DataFrame [1..n_impressions config] uids vs cs ks
            (map2 (\<lambda>k x. if k = 1 then max x 0 else 0) ks zs)
    \<and> 0 \<le> n_impressions config
    \<and> length uids = nat (n_impressions config) \<and> length vs = nat (n_impressions config)
    \<and> length cs = nat (n_impressions config) \<and> length ks = nat (n_impressions config)
    \<and> length zs = nat (n_impressions config)"
  using assms
  apply (simp add: generate_synthetic_data_def Let_def
      split: sum.splits prod.splits if_splits)
  apply (drule length_sample)+
  apply (drule length_sample_each)
  apply (intro exI conjI)
        apply (erule sym)
       apply simp_all
  done


lemma generate_total:
  assumes "in_domain config"
  shows "\<exists>d g. generate_synthetic_data R config g0 = Inr (d, g)"
  using assms
  by (auto simp: in_domain_def generate_synthetic_data_def np_seed_def Let_def
      split: prod.splits option.splits)

lemma unseeded_generation_depends_on_state:
  "generate_synthetic_data counter_rng (sample_config\<lparr>seed := None\<rparr>) 0
     \<noteq> generate_synthetic_data counter_rng (sample_config\<lparr>seed := None\<rparr>) 1"
  by code_simp

lemma generate_shape:
  assumes "generate_synthetic_data R config g0 = Inr (d, g)"
  shows "columns d = [''impression_id'', ''user_id'', ''variant'', ''clicked'', ''converted'', ''revenue'']
    \<and> length (rows d) = nat (n_impressions config)
    \<and> map impression_id (rows d) = [1..n_impressions config]"
proof -
  from generate_Inr [OF assms] obtain uids vs cs ks zs where
    d: "d = DataFrame [1..n_impressions config] uids vs cs ks
            (map2 (\<lambda>k x. if k = 1 then max x 0 else 0) ks zs)"
    and l: "length uids = nat (n_impressions config)" "length vs = nat (n_impressions config)"
      "length cs = nat (n_impressions config)" "length ks = nat (n_impressions config)"
      "length zs = nat (n_impressions config)"
    by blast
  have "length [1..n_impressions config] = nat (n_impressions config)" by simp
  with l DataFrame_shape [of uids "[1..n_impressions config]" vs cs ks
      "map2 (\<lambda>k x. if k = 1 then max x 0 else 0) ks zs"]
  show ?thesis by (simp add: d) (simp add: DataFrame_def)
qed

subsection \<open>Determinism under a seed\<close>

text \<open>
  Claim C7. With a seed in the configuration, the outcome of the sampler is a function of
  the configuration alone: two runs with the same configuration, entered in any two
  states of the global generator, have the same outcome, frame and final state, and on
  every configuration in the sampler's domain that outcome is a frame.
\<close>

theorem seeded_generation_deterministic:
  assumes "seed config = Some s"
  shows "generate_synthetic_data R config g0 = generate_synthetic_data R config g1
    \<and> (in_domain config \<longrightarrow> (\<exists>d g. generate_synthetic_data R config g0 = Inr (d, g)))"
proof
  show "generate_synthetic_data R config g0 = generate_synthetic_data R config g1"
    using assms by (simp add: generate_synthetic_data_def)
  show "in_domain config \<longrightarrow> (\<exists>d g. generate_synthetic_data R config g0 = Inr (d, g))"
    using generate_total [of config R g0] by blast
qed

text \<open>Two runs on \<open>sample_config\<close> (seed 19), entered in the states 0 and 7.\<close>

theorem seeded_generation_deterministic_witness:
  "seed sample_config = Some 19 \<and> in_domain sample_config
   \<and> generate_synthetic_data counter_rng sample_config 0
       = generate_synthetic_data counter_rng sample_config 7
   \<and> generate_synthetic_data counter_rng sample_config 0 = Inr (sample_frame, 39)"
proof -
  have h: "seed sample_config = Some 19" by (simp add: sample_config_def)
  have v: "in_domain sample_config" by (simp add: in_domain_def sample_config_def)
  have e: "generate_synthetic_data counter_rng sample_config 0 = Inr (sample_frame, 39)"
    by code_simp
  from seeded_generation_deterministic [OF h, of counter_rng 0 7] h v e
  show ?thesis by blast
qed

subsection \<open>Shape of the generated frame\<close>

text \<open>
  Claim C8 says that every positive \<^verbatim>\<open>n_impressions\<close> gives a frame of that many rows,
  with the six columns and the identifiers 1, 2, ..., n. From two impressions on this
  holds (\<open>generate_total\<close>, \<open>generate_shape\<close>). With one impression the sampler raises:
  the user identifiers are drawn by \<^verbatim>\<open>randint(1, n // 2 + 1, size=n)\<close>, whose range is
  empty for \<open>n = 1\<close>.
\<close>

theorem generate_one_impression_raises:
  "generate_synthetic_data R (default_config\<lparr>n_impressions := 1\<rparr>) g0 = Inl NumpyValueError"
  by (simp add: generate_synthetic_data_def default_config_def np_seed_def split: prod.splits)

subsection \<open>Revenue\<close>

text \<open>
  Claim C9. On every configuration in its domain the sampler returns a frame, and in
  every row of a frame it returns the revenue is at least 0, and is 0 when the row's
  converted cell is 0.
\<close>

theorem revenue_nonneg_zero_unconverted:
  "(in_domain config \<longrightarrow> (\<exists>d g. generate_synthetic_data R config g0 = Inr (d, g)))
   \<and> (\<forall>d g. generate_synthetic_data R config g0 = Inr (d, g) \<longrightarrow>
        (\<forall>r \<in> set (rows d). 0 \<le> revenue r \<and> (converted r = 0 \<longrightarrow> revenue r = 0)))"
proof (intro conjI allI impI ballI)
  assume "in_domain config"
  then show "\<exists>d g. generate_synthetic_data R config g0 = Inr (d, g)" by (rule generate_total)
next
  fix d g r
  assume gen: "generate_synthetic_data R config g0 = Inr (d, g)" and r: "r \<in> set (rows d)"
  from generate_Inr [OF gen] obtain uids vs cs ks zs where
    d: "d = DataFrame [1..n_impressions config] uids vs cs ks
            (map2 (\<lambda>k x. if k = 1 then max x 0 else 0) ks zs)"
    by blast
  from r have "(converted r, revenue r)
      \<in> set (zip ks (map2 (\<lambda>k x. if k = 1 then max x 0 else 0) ks zs))"
    unfolding d by (rule DataFrame_row)
  then obtain z where z: "revenue r = (if converted r = 1 then max z 0 else 0)"
    by (auto dest: zip_map2_snd)
  from z show "0 \<le> revenue r" by simp
  assume "converted r = 0"
  with z show "revenue r = 0" by simp
qed

text \<open>
  The frame of \<open>sample_config\<close>: its second row converted and earned 2, its third row
  converted with a draw below zero, clipped to 0, and the other two rows did not convert.
\<close>

theorem revenue_nonneg_zero_unconverted_witness:
  "in_domain sample_config
   \<and> generate_synthetic_data counter_rng sample_config 0 = Inr (sample_frame, 39)
   \<and> list_all (\<lambda>r. 0 \<le> revenue r \<and> (converted r = 0 \<longrightarrow> revenue r = 0)) (rows sample_frame)
   \<and> map converted (rows sample_frame) = [0, 1, 1, 0]
   \<and> map revenue (rows sample_frame) = [0, 2, 0, 0]"
proof -
  have v: "in_domain sample_config" by (simp add: in_domain_def sample_config_def)
  have h: "generate_synthetic_data counter_rng sample_config 0 = Inr (sample_frame, 39)"
    by code_simp
  have m: "map converted (rows sample_frame) = [0, 1, 1, 0]
      \<and> map revenue (rows sample_frame) = [0, 2, 0, 0]"
    by (simp add: sample_frame_def)
  from revenue_nonneg_zero_unconverted [of sample_config counter_rng 0] h
  have "\<forall>r \<in> set (rows sample_frame). 0 \<le> revenue r \<and> (converted r = 0 \<longrightarrow> revenue r = 0)"
    by blast
  with v h m show ?thesis by (simp add: list_all_iff)
qed

end
